theory Spec2Isabelle
  imports Complex_Main
begin

section \<open>Advanced camera control prompt generator\<close>

text \<open>
  A shallow embedding of \<^verbatim>\<open>AdvancedCameraControlNode\<close>
  (\<^verbatim>\<open>advanced_camera_control_node.py\<close>).

  Numbers. Python's \<^verbatim>\<open>float\<close> is modelled by \<^typ>\<open>real\<close>: the arithmetic
  of the model is exact, and the rounding of IEEE doubles, signed zeros, infinities and
  NaN are outside it. Where the source can hand on either an \<^verbatim>\<open>int\<close> or a
  \<^verbatim>\<open>float\<close> and the difference can be seen in the output (the angle triple, whose
  guard returns the integers \<^verbatim>\<open>(0, 0, 0)\<close>), the model keeps the two apart
  in the type \<open>pynum\<close>.

  Strings. A \<^typ>\<open>string\<close> is a list of 8-bit characters, read here as the code
  points below 256; the degree sign of the prompt is the single character \<open>0xB0\<close>.

  Dictionaries. A point is the association list of its coordinates; the empty list is
  the empty dict. A parameter that may be \<^verbatim>\<open>None\<close> is an option.
\<close>

subsection \<open>Python values and helpers\<close>

datatype pynum = PInt int | PFloat real

fun val :: "pynum \<Rightarrow> real" where
  "val (PInt i) = real_of_int i"
| "val (PFloat r) = r"

type_synonym point = "(string \<times> real) list"

text \<open>\<^verbatim>\<open>d.get(k, 0)\<close> on a dict of numbers.\<close>

definition get0 :: "point \<Rightarrow> string \<Rightarrow> real" where
  "get0 d k = (case map_of d k of Some v \<Rightarrow> v | None \<Rightarrow> 0)"

text \<open>\<^verbatim>\<open>not d\<close> for a parameter that is \<^verbatim>\<open>None\<close> or a dict.\<close>

fun falsy :: "point option \<Rightarrow> bool" where
  "falsy None = True"
| "falsy (Some d) = (d = [])"

text \<open>
  The dict behind an optional dict, the empty dict when there is none: a parameter that
  passed the \<^verbatim>\<open>not d\<close> guard, and \<^verbatim>\<open>camera_info.get(k, {})\<close>.
\<close>

fun dict_of :: "point option \<Rightarrow> point" where
  "dict_of None = []"
| "dict_of (Some d) = d"

text \<open>
  \<^verbatim>\<open>math.degrees\<close>, \<^verbatim>\<open>math.radians\<close> and \<^verbatim>\<open>math.atan2\<close>
  on the reals. \<^verbatim>\<open>atan2(y, x)\<close> is the angle of the point \<open>(x, y)\<close> in
  \<open>(-\<pi>, \<pi>]\<close>, and \<open>0\<close> at the origin.
\<close>

definition degrees :: "real \<Rightarrow> real" where
  "degrees r = r * 180 / pi"

definition radians :: "real \<Rightarrow> real" where
  "radians d = d * pi / 180"

definition atan2 :: "real \<Rightarrow> real \<Rightarrow> real" where
  "atan2 y x =
     (if 0 < x then arctan (y / x)
      else if x < 0 then (if 0 \<le> y then arctan (y / x) + pi else arctan (y / x) - pi)
      else if 0 < y then pi / 2
      else if y < 0 then - (pi / 2)
      else 0)"

text \<open>
  \<^verbatim>\<open>int(x)\<close> of a float truncates towards zero; \<^verbatim>\<open>round(x, n)\<close> and the
  format \<^verbatim>\<open>.1f\<close> round to the nearest decimal, a tie going to the even digit.
\<close>

definition py_int :: "real \<Rightarrow> int" where
  "py_int x = (if 0 \<le> x then \<lfloor>x\<rfloor> else \<lceil>x\<rceil>)"

definition round_half_even :: "real \<Rightarrow> int" where
  "round_half_even x =
     (let f = \<lfloor>x\<rfloor>; d = x - of_int f
      in if d < 1 / 2 then f
         else if 1 / 2 < d then f + 1
         else if even f then f else f + 1)"

definition py_round :: "real \<Rightarrow> nat \<Rightarrow> real" where
  "py_round x n = of_int (round_half_even (x * 10 ^ n)) / 10 ^ n"

fun round_num :: "pynum \<Rightarrow> nat \<Rightarrow> pynum" where
  "round_num (PInt i) n = PInt i"
| "round_num (PFloat r) n = PFloat (py_round r n)"

fun abs_num :: "pynum \<Rightarrow> pynum" where
  "abs_num (PInt i) = PInt \<bar>i\<bar>"
| "abs_num (PFloat r) = PFloat \<bar>r\<bar>"

text \<open>\<^verbatim>\<open>str\<close> of an integer.\<close>

definition digit :: "nat \<Rightarrow> char" where
  "digit n = ''0123456789'' ! (n mod 10)"

function str_nat :: "nat \<Rightarrow> string" where
  "str_nat n = (if n < 10 then [digit n] else str_nat (n div 10) @ [digit n])"
  by pat_completeness auto
termination
  by (relation "measure (\<lambda>n. n)") auto

declare str_nat.simps [simp del]

definition str_int :: "int \<Rightarrow> string" where
  "str_int i = (if i < 0 then ''-'' @ str_nat (nat (- i)) else str_nat (nat i))"

text \<open>
  \<^verbatim>\<open>f"{x:.1f}"\<close>: the sign, the integer digits, a point and one decimal.
\<close>

definition format_1f :: "real \<Rightarrow> string" where
  "format_1f x =
     (let t = nat (round_half_even (\<bar>x\<bar> * 10))
      in (if x < 0 then ''-'' else []) @ str_nat (t div 10) @ ''.'' @ [digit t])"

text \<open>
  \<^verbatim>\<open>str\<close> of a float that \<^verbatim>\<open>round(x, 1)\<close> returned, a multiple of a tenth
  of moderate size: the shortest decimal that reads back as the float has one decimal.
\<close>

definition str_float1 :: "real \<Rightarrow> string" where
  "str_float1 x =
     (let t = nat \<lfloor>\<bar>x\<bar> * 10\<rfloor>
      in (if x < 0 then ''-'' else []) @ str_nat (t div 10) @ ''.'' @ [digit t])"

fun str_num1 :: "pynum \<Rightarrow> string" where
  "str_num1 (PInt i) = str_int i"
| "str_num1 (PFloat r) = str_float1 r"

text \<open>
  String methods: \<^verbatim>\<open>sep.join(parts)\<close>, \<^verbatim>\<open>s.strip()\<close>, the first two pieces of
  \<^verbatim>\<open>s.split("(")\<close>, \<^verbatim>\<open>s.replace(a, b)\<close> for single characters and
  \<^verbatim>\<open>s.lower()\<close>.
\<close>

fun join :: "string \<Rightarrow> string list \<Rightarrow> string" where
  "join sep [] = []"
| "join sep [p] = p"
| "join sep (p # q # ps) = p @ sep @ join sep (q # ps)"

definition is_space :: "char \<Rightarrow> bool" where
  "is_space c = (c \<in> set [CHR 0x09, CHR 0x0A, CHR 0x0B, CHR 0x0C, CHR 0x0D,
                           CHR 0x1C, CHR 0x1D, CHR 0x1E, CHR 0x1F, CHR 0x20,
                           CHR 0x85, CHR 0xA0])"

definition strip :: "string \<Rightarrow> string" where
  "strip s = rev (dropWhile is_space (rev (dropWhile is_space s)))"

definition split_paren_0 :: "string \<Rightarrow> string" where
  "split_paren_0 s = takeWhile (\<lambda>c. c \<noteq> CHR ''('') s"

definition split_paren_1 :: "string \<Rightarrow> string" where
  "split_paren_1 s = takeWhile (\<lambda>c. c \<noteq> CHR ''('') (tl (dropWhile (\<lambda>c. c \<noteq> CHR ''('') s))"

definition replace_char :: "char \<Rightarrow> char \<Rightarrow> string \<Rightarrow> string" where
  "replace_char a b s = map (\<lambda>c. if c = a then b else c) s"

definition lower_char :: "char \<Rightarrow> char" where
  "lower_char c =
     (let n = (of_char c :: nat)
      in if (65 \<le> n \<and> n \<le> 90) \<or> (192 \<le> n \<and> n \<le> 222 \<and> n \<noteq> 215)
         then char_of (n + 32) else c)"

definition lower :: "string \<Rightarrow> string" where
  "lower s = map lower_char s"

subsection \<open>Class constants\<close>

definition EYE_LEVEL_HEIGHT :: real where "EYE_LEVEL_HEIGHT = 0.425"
definition GRID_TO_METERS :: real where "GRID_TO_METERS = 4.0"
definition SENSOR_WIDTH_MM :: real where "SENSOR_WIDTH_MM = 36.0"
definition SENSOR_HEIGHT_MM :: real where "SENSOR_HEIGHT_MM = 24.0"

definition FRAMING_THRESHOLDS :: "(string \<times> real \<times> real) list" where
  "FRAMING_THRESHOLDS =
     [(''extreme close-up'', 90, 1000),
      (''close-up'', 60, 90),
      (''medium close-up'', 45, 60),
      (''medium shot'', 30, 60),
      (''medium long shot'', 20, 30),
      (''full shot'', 15, 30),
      (''wide shot'', 5, 15),
      (''extreme wide shot'', 0, 5)]"

record camera_shot =
  shot_name :: string
  shot_distance_m :: "real \<times> real"
  shot_focal_length_mm :: "real \<times> real"
  shot_fov_deg :: "real \<times> real"

definition CAMERA_SHOTS :: "camera_shot list" where
  "CAMERA_SHOTS =
     [\<lparr>shot_name = ''Extreme Close-Up'', shot_distance_m = (0.3, 0.6),
       shot_focal_length_mm = (85, 135), shot_fov_deg = (10, 20)\<rparr>,
      \<lparr>shot_name = ''Close-Up'', shot_distance_m = (0.6, 1.2),
       shot_focal_length_mm = (50, 85), shot_fov_deg = (20, 30)\<rparr>,
      \<lparr>shot_name = ''Medium Close-Up'', shot_distance_m = (1.0, 1.8),
       shot_focal_length_mm = (35, 50), shot_fov_deg = (30, 40)\<rparr>,
      \<lparr>shot_name = ''Medium Shot'', shot_distance_m = (1.5, 3.0),
       shot_focal_length_mm = (28, 50), shot_fov_deg = (35, 45)\<rparr>,
      \<lparr>shot_name = ''Medium Long Shot'', shot_distance_m = (2.5, 4.0),
       shot_focal_length_mm = (24, 35), shot_fov_deg = (45, 55)\<rparr>,
      \<lparr>shot_name = ''Full Shot'', shot_distance_m = (3.0, 5.0),
       shot_focal_length_mm = (24, 35), shot_fov_deg = (50, 60)\<rparr>,
      \<lparr>shot_name = ''Wide Shot'', shot_distance_m = (5.0, 10.0),
       shot_focal_length_mm = (18, 24), shot_fov_deg = (60, 90)\<rparr>,
      \<lparr>shot_name = ''Extreme Wide Shot'', shot_distance_m = (10, 50),
       shot_focal_length_mm = (14, 20), shot_fov_deg = (90, 120)\<rparr>]"

text \<open>An entry of \<^verbatim>\<open>CAMERA_ANGLES\<close> has a tilt range or a roll range.\<close>

record camera_angle =
  angle_name :: string
  tilt_deg :: "(real \<times> real) option"
  roll_deg :: "(real \<times> real) option"

definition CAMERA_ANGLES :: "camera_angle list" where
  "CAMERA_ANGLES =
     [\<lparr>angle_name = ''Eye Level'', tilt_deg = Some (- 5, 5), roll_deg = None\<rparr>,
      \<lparr>angle_name = ''High Angle'', tilt_deg = Some (- 20, - 45), roll_deg = None\<rparr>,
      \<lparr>angle_name = ''Slight Low Angle'', tilt_deg = Some (5, 15), roll_deg = None\<rparr>,
      \<lparr>angle_name = ''Standard Low Angle'', tilt_deg = Some (15, 30), roll_deg = None\<rparr>,
      \<lparr>angle_name = ''Deep Low Angle'', tilt_deg = Some (30, 45), roll_deg = None\<rparr>,
      \<lparr>angle_name = ''Extreme Low Angle'', tilt_deg = Some (45, 90), roll_deg = None\<rparr>,
      \<lparr>angle_name = ''Bird's Eye'', tilt_deg = Some (- 80, - 90), roll_deg = None\<rparr>,
      \<lparr>angle_name = ''Dutch Angle'', tilt_deg = None, roll_deg = Some (5, 30)\<rparr>,
      \<lparr>angle_name = ''Dutch Low Angle'', tilt_deg = None, roll_deg = Some (10, 45)\<rparr>]"

definition EYE_LEVEL_TOLERANCE :: real where "EYE_LEVEL_TOLERANCE = 5.0"
definition DUTCH_ANGLE_ROLL_MIN :: real where "DUTCH_ANGLE_ROLL_MIN = 5.0"
definition HIGH_ANGLE_MIN :: real where "HIGH_ANGLE_MIN = 15.0"
definition BIRD_EYE_MIN :: real where "BIRD_EYE_MIN = 75.0"
definition LOW_ANGLE_MAX :: real where "LOW_ANGLE_MAX = - 15.0"
definition WORM_EYE_MAX :: real where "WORM_EYE_MAX = - 75.0"

definition EXTREME_CLOSE_UP_MAX :: real where "EXTREME_CLOSE_UP_MAX = 0.6"
definition CLOSE_UP_MAX :: real where "CLOSE_UP_MAX = 1.2"
definition MEDIUM_SHOT_MAX :: real where "MEDIUM_SHOT_MAX = 3.0"
definition FULL_SHOT_MAX :: real where "FULL_SHOT_MAX = 5.0"
definition WIDE_SHOT_MAX :: real where "WIDE_SHOT_MAX = 10.0"

definition DEFAULT_POSITION :: point where
  "DEFAULT_POSITION = [(''x'', 0.0), (''y'', EYE_LEVEL_HEIGHT), (''z'', 0.5)]"

definition DEFAULT_TARGET :: point where
  "DEFAULT_TARGET = [(''x'', 0.0), (''y'', EYE_LEVEL_HEIGHT), (''z'', 0.0)]"

subsection \<open>Geometry\<close>

text \<open>\<^verbatim>\<open>_calculate_distance\<close>: the guard returns \<open>0\<close>, the rest is the norm.\<close>

definition calculate_distance :: "point option \<Rightarrow> point option \<Rightarrow> real" where
  "calculate_distance position target =
     (if falsy position \<or> falsy target then 0
      else
        let dx = get0 (dict_of position) ''x'' - get0 (dict_of target) ''x'';
            dy = get0 (dict_of position) ''y'' - get0 (dict_of target) ''y'';
            dz = get0 (dict_of position) ''z'' - get0 (dict_of target) ''z''
        in sqrt (dx * dx + dy * dy + dz * dz))"

text \<open>\<^verbatim>\<open>_calculate_camera_angles\<close>: pitch, yaw and roll.\<close>

definition calculate_camera_angles ::
  "point option \<Rightarrow> point option \<Rightarrow> pynum \<times> pynum \<times> pynum" where
  "calculate_camera_angles position target =
     (if falsy position \<or> falsy target then (PInt 0, PInt 0, PInt 0)
      else
        let pos_x = get0 (dict_of position) ''x'';
            pos_y = get0 (dict_of position) ''y'';
            pos_z = get0 (dict_of position) ''z'';
            tgt_x = get0 (dict_of target) ''x'';
            tgt_y = get0 (dict_of target) ''y'';
            tgt_z = get0 (dict_of target) ''z'';
            dx = pos_x - tgt_x;
            dy = pos_y - tgt_y;
            dz = pos_z - tgt_z;
            horizontal_dist = sqrt (dx * dx + dz * dz);
            pitch = (if horizontal_dist > 0.001 then degrees (atan2 dy horizontal_dist)
                     else if dy > 0 then 90.0 else - 90.0);
            yaw = (if \<bar>dz\<bar> > 0.001 then degrees (atan2 dx (- dz)) else 0.0);
            roll = 0.0
        in (PFloat pitch, PFloat yaw, PFloat roll))"

subsection \<open>Angle classification\<close>

text \<open>
  \<^verbatim>\<open>_get_angle_type_name\<close>. Its two loops over \<^verbatim>\<open>CAMERA_ANGLES\<close> are the
  two scans below: a scan ends with the first \<^verbatim>\<open>return\<close> and is \<open>None\<close> when the
  loop runs out. In the tilt scan an entry whose range matches but whose name is none of
  the six of the \<^verbatim>\<open>if\<close>/\<^verbatim>\<open>elif\<close> chain returns nothing, and the loop goes on.
\<close>

fun dutch_low_scan :: "camera_angle list \<Rightarrow> real \<Rightarrow> string option" where
  "dutch_low_scan [] roll = None"
| "dutch_low_scan (angle # rest) roll =
     (case roll_deg angle of
        Some (lo, hi) \<Rightarrow>
          if angle_name angle = ''Dutch Low Angle'' \<and> lo \<le> \<bar>roll\<bar> \<and> \<bar>roll\<bar> \<le> hi
          then Some ''dutch low angle''
          else dutch_low_scan rest roll
      | None \<Rightarrow> dutch_low_scan rest roll)"

definition tilt_name :: "string \<Rightarrow> string option" where
  "tilt_name angle_name' =
     (if angle_name' = ''High Angle'' then Some ''high angle''
      else if angle_name' = ''Slight Low Angle'' then Some ''slight low angle''
      else if angle_name' = ''Standard Low Angle'' then Some ''standard low angle''
      else if angle_name' = ''Deep Low Angle'' then Some ''deep low angle''
      else if angle_name' = ''Extreme Low Angle'' then Some ''extreme low angle''
      else if angle_name' = ''Bird's Eye'' then Some ''bird's eye view''
      else None)"

fun tilt_scan :: "camera_angle list \<Rightarrow> real \<Rightarrow> string option" where
  "tilt_scan [] pitch = None"
| "tilt_scan (angle # rest) pitch =
     (case tilt_deg angle of
        Some (lo, hi) \<Rightarrow>
          (let tilt_value = - pitch
           in if lo \<le> tilt_value \<and> tilt_value \<le> hi
              then (case tilt_name (angle_name angle) of
                      Some s \<Rightarrow> Some s
                    | None \<Rightarrow> tilt_scan rest pitch)
              else tilt_scan rest pitch)
      | None \<Rightarrow> tilt_scan rest pitch)"

definition pitch_fallback :: "real \<Rightarrow> string" where
  "pitch_fallback pitch =
     (if pitch \<ge> BIRD_EYE_MIN then ''bird's eye view''
      else if pitch \<ge> HIGH_ANGLE_MIN then ''high angle''
      else if pitch \<le> WORM_EYE_MAX then ''extreme low angle''
      else if pitch \<le> - 45 then ''deep low angle''
      else if pitch \<le> - 30 then ''standard low angle''
      else if pitch \<le> - 15 then ''slight low angle''
      else if pitch > 0 then ''high angle''
      else ''low angle'')"

definition get_angle_type_name :: "real \<Rightarrow> real \<Rightarrow> string" where
  "get_angle_type_name pitch roll =
     (case (if \<bar>roll\<bar> \<ge> 10 \<and> pitch < 0 then dutch_low_scan CAMERA_ANGLES roll else None) of
        Some s \<Rightarrow> s
      | None \<Rightarrow>
          if \<bar>roll\<bar> \<ge> DUTCH_ANGLE_ROLL_MIN then ''dutch angle''
          else (case tilt_scan CAMERA_ANGLES pitch of
                  Some s \<Rightarrow> s
                | None \<Rightarrow> pitch_fallback pitch))"

text \<open>
  The angle classification as the specification words it, for a roll of \<open>0\<close>: the
  tilt-range table in its declaration order, each range with its lowercase name, scanned
  for the first range that holds \<open>tilt_value = - pitch\<close> with both ends included, and
  the numeric thresholds when no range does.
\<close>

definition spec_tilt_table :: "(string \<times> real \<times> real) list" where
  "spec_tilt_table =
     [(''high angle'', - 20, - 45),
      (''slight low angle'', 5, 15),
      (''standard low angle'', 15, 30),
      (''deep low angle'', 30, 45),
      (''extreme low angle'', 45, 90),
      (''bird's eye view'', - 80, - 90)]"

definition spec_numeric_fallback :: "real \<Rightarrow> string" where
  "spec_numeric_fallback pitch =
     (if pitch \<ge> 75 then ''bird's eye view''
      else if pitch \<ge> 15 then ''high angle''
      else if pitch \<le> - 75 then ''extreme low angle''
      else if pitch \<le> - 45 then ''deep low angle''
      else if pitch \<le> - 30 then ''standard low angle''
      else if pitch \<le> - 15 then ''slight low angle''
      else if pitch > 0 then ''high angle''
      else ''low angle'')"

definition spec_angle_class :: "real \<Rightarrow> string" where
  "spec_angle_class pitch =
     (case find (\<lambda>(n, lo, hi). lo \<le> - pitch \<and> - pitch \<le> hi) spec_tilt_table of
        Some (n, lo, hi) \<Rightarrow> n
      | None \<Rightarrow> spec_numeric_fallback pitch)"

subsection \<open>Shot classification\<close>

text \<open>\<^verbatim>\<open>_calculate_fov_from_focal_length\<close> and \<^verbatim>\<open>_estimate_focal_length\<close>.\<close>

definition calculate_fov_from_focal_length :: "real \<Rightarrow> bool \<Rightarrow> real option" where
  "calculate_fov_from_focal_length focal_length_mm use_horizontal =
     (if focal_length_mm \<le> 0 then None
      else
        let sensor_dim = (if use_horizontal then SENSOR_WIDTH_MM else SENSOR_HEIGHT_MM);
            fov_rad = 2.0 * arctan (sensor_dim / (2.0 * focal_length_mm))
        in Some (degrees fov_rad))"

definition estimate_focal_length :: "real option \<Rightarrow> real option" where
  "estimate_focal_length fov =
     (case fov of
        None \<Rightarrow> None
      | Some f \<Rightarrow>
          if f \<noteq> 0 \<and> f > 0 then
            (let fov_rad = radians f;
                 focal_length = 18.0 / tan (fov_rad / 2.0)
             in Some (max 14.0 (min 200.0 focal_length)))
          else None)"

text \<open>
  \<^verbatim>\<open>_calculate_framing_shot_type\<close>; the loop over the items of
  \<^verbatim>\<open>FRAMING_THRESHOLDS\<close> is \<open>framing_scan\<close>.
\<close>

fun framing_scan :: "(string \<times> real \<times> real) list \<Rightarrow> real \<Rightarrow> string option" where
  "framing_scan [] percent_of_frame = None"
| "framing_scan ((shot_name', min_pct, max_pct) # rest) percent_of_frame =
     (if (min_pct \<le> percent_of_frame \<and> percent_of_frame < max_pct)
         \<or> (max_pct \<ge> 1000 \<and> percent_of_frame \<ge> min_pct)
      then Some shot_name'
      else framing_scan rest percent_of_frame)"

definition calculate_framing_shot_type ::
  "real option \<Rightarrow> real \<Rightarrow> real \<Rightarrow> bool \<Rightarrow> string option" where
  "calculate_framing_shot_type object_scale_meters distance_meters focal_length_mm use_horizontal =
     (case object_scale_meters of
        None \<Rightarrow> None
      | Some scale \<Rightarrow>
          if scale \<le> 0 then None
          else if distance_meters \<le> 0 \<or> focal_length_mm \<le> 0 then None
          else
            let projected_mm = focal_length_mm * (scale / distance_meters);
                sensor_dim_mm = (if use_horizontal then SENSOR_WIDTH_MM else SENSOR_HEIGHT_MM);
                percent_of_frame = 100.0 * projected_mm / sensor_dim_mm
            in (case framing_scan FRAMING_THRESHOLDS percent_of_frame of
                  Some s \<Rightarrow> Some s
                | None \<Rightarrow>
                    if percent_of_frame \<ge> 100 then Some ''extreme close-up''
                    else if percent_of_frame < 0.1 then Some ''extreme wide shot''
                    else None))"

text \<open>
  \<^verbatim>\<open>_get_shot_type_prompt\<close>. Its three table loops differ in the range they read
  only: \<open>shot_scan\<close> stops at the first entry whose range holds the value, both ends
  included, and gives the shot type the chain on the entry's name sets.
\<close>

definition shot_type_of_name :: "string \<Rightarrow> string option" where
  "shot_type_of_name shot_name' =
     (if shot_name' = ''Extreme Close-Up'' then Some ''extreme close-up''
      else if shot_name' = ''Close-Up'' then Some ''close-up''
      else if shot_name' = ''Medium Close-Up'' then Some ''medium close-up''
      else if shot_name' = ''Medium Shot'' then Some ''medium shot''
      else if shot_name' = ''Medium Long Shot'' then Some ''medium long shot''
      else if shot_name' = ''Full Shot'' then Some ''full shot''
      else if shot_name' = ''Wide Shot'' then Some ''wide shot''
      else if shot_name' = ''Extreme Wide Shot'' then Some ''extreme wide shot''
      else None)"

fun shot_scan :: "(camera_shot \<Rightarrow> real \<times> real) \<Rightarrow> camera_shot list \<Rightarrow> real \<Rightarrow> string option" where
  "shot_scan rng [] v = None"
| "shot_scan rng (shot # rest) v =
     (if fst (rng shot) \<le> v \<and> v \<le> snd (rng shot)
      then shot_type_of_name (shot_name shot)
      else shot_scan rng rest v)"

definition distance_thresholds :: "real \<Rightarrow> string" where
  "distance_thresholds distance_meters =
     (if distance_meters < EXTREME_CLOSE_UP_MAX then ''extreme close-up''
      else if distance_meters < CLOSE_UP_MAX then ''close-up''
      else if distance_meters < MEDIUM_SHOT_MAX then ''medium shot''
      else if distance_meters < FULL_SHOT_MAX then ''full shot''
      else if distance_meters < WIDE_SHOT_MAX then ''wide shot''
      else ''extreme wide shot'')"

text \<open>
  The value of the local \<^verbatim>\<open>shot_type\<close> after the framing tier, and its value
  when the parameter clause is built.
\<close>

definition framing_tier :: "real option \<Rightarrow> real \<Rightarrow> real option \<Rightarrow> string option" where
  "framing_tier object_scale_meters distance_meters estimated_focal =
     (case estimated_focal of
        Some ef \<Rightarrow>
          if object_scale_meters \<noteq> None
          then calculate_framing_shot_type object_scale_meters distance_meters ef False
          else None
      | None \<Rightarrow> None)"

definition shot_type_of ::
  "real \<Rightarrow> real option \<Rightarrow> real option \<Rightarrow> real option \<Rightarrow> string" where
  "shot_type_of distance_meters fov estimated_focal object_scale_meters =
     (let t1 = framing_tier object_scale_meters distance_meters estimated_focal;
          t2 = (if t1 = None then shot_scan shot_distance_m CAMERA_SHOTS distance_meters else t1);
          t3 = (case fov of
                  Some fov_deg' \<Rightarrow>
                    if t2 = None then shot_scan shot_fov_deg CAMERA_SHOTS fov_deg' else t2
                | None \<Rightarrow> t2);
          t4 = (case estimated_focal of
                  Some ef \<Rightarrow>
                    if t3 = None then shot_scan shot_focal_length_mm CAMERA_SHOTS ef else t3
                | None \<Rightarrow> t3)
      in case t4 of
           Some s \<Rightarrow> s
         | None \<Rightarrow> distance_thresholds distance_meters)"

definition get_shot_type_prompt ::
  "real \<Rightarrow> real \<Rightarrow> real option \<Rightarrow> real option \<Rightarrow> real option \<Rightarrow> string" where
  "get_shot_type_prompt distance zoom fov focal_length_mm object_scale_meters =
     (let distance_meters = distance * GRID_TO_METERS;
          distance_str = format_1f distance_meters @ '' m'';
          estimated_focal = (if focal_length_mm = None \<and> fov \<noteq> None
                             then estimate_focal_length fov else focal_length_mm);
          shot_type = shot_type_of distance_meters fov estimated_focal object_scale_meters;
          focal_to_display = (if focal_length_mm \<noteq> None then focal_length_mm else estimated_focal);
          focal_part = (case focal_to_display of
                          Some f \<Rightarrow> [str_int (py_int f) @ ''mm'']
                        | None \<Rightarrow> []);
          fov_part = (case fov of
                        Some f \<Rightarrow>
                          if py_int f \<noteq> 0
                          then [''FOV '' @ str_int (py_int f) @ [CHR 0xB0]]
                          else []
                      | None \<Rightarrow> []);
          camera_info_parts = [''camera distance '' @ distance_str] @ focal_part @ fov_part;
          camera_info = join '' '' camera_info_parts
      in shot_type @ '' ('' @ camera_info @ '')'')"

subsection \<open>Position phrase\<close>

text \<open>
  \<^verbatim>\<open>_get_camera_position_prompt\<close>. \<^verbatim>\<open>safe_float\<close> is the identity on the
  numbers of a point, and \<^verbatim>\<open>parts\<close> holds one phrase or none.
\<close>

definition get_camera_position_prompt ::
  "point option \<Rightarrow> point option \<Rightarrow> real \<Rightarrow> real \<Rightarrow> string" where
  "get_camera_position_prompt position target pitch yaw =
     (if falsy position \<or> falsy target then []
      else
        let pos_x = get0 (dict_of position) ''x'' - get0 (dict_of target) ''x'';
            pos_y = get0 (dict_of position) ''y'' - get0 (dict_of target) ''y'';
            pos_z = get0 (dict_of position) ''z'' - get0 (dict_of target) ''z'';
            horizontal_dist = sqrt (pos_x * pos_x + pos_z * pos_z)
        in if horizontal_dist < 0.001
           then (if pos_y > 0 then ''above object'' else ''below object'')
           else
             let angle_deg0 = degrees (atan2 pos_x pos_z);
                 angle_deg = (if angle_deg0 < 0 then angle_deg0 + 360 else angle_deg0);
                 angle_int = py_int angle_deg;
                 is_directly_front =
                   ((\<bar>angle_int\<bar> < 2 \<or> \<bar>angle_int - 360\<bar> < 2) \<and> pos_z > 0.1)
             in if is_directly_front then []
                else if pos_z < - 0.1 then
                  (if \<bar>pos_x\<bar> < 0.1 then ''looking from behind''
                   else if 90 \<le> angle_int \<and> angle_int \<le> 180
                     then ''Pan the camera '' @ str_int angle_int @ '' degrees to the right-back side''
                   else if 180 < angle_int \<and> angle_int \<le> 270
                     then ''Pan the camera '' @ str_int angle_int @ '' degrees to the left-back side''
                   else ''looking from behind at '' @ str_int angle_int @ '' degree'')
                else
                  (if \<bar>pos_x\<bar> < 0.1 then
                     (if pos_z > 0.1 then [] else ''looking from behind'')
                   else if pos_x > 0.1
                     then ''Pan the camera '' @ str_int angle_int @ '' degrees to the right''
                   else if pos_x < - 0.1 then
                     (if angle_int \<ge> 270
                        then ''Pan the camera '' @ str_int (360 - angle_int) @ '' degrees to the left''
                      else if angle_int > 180
                        then ''Pan the camera '' @ str_int angle_int @ '' degrees to the left''
                      else ''Pan the camera '' @ str_int angle_int @ '' degrees to the left'')
                   else []))"

subsection \<open>Record serializer\<close>

text \<open>
  The value \<^verbatim>\<open>_generate_camera_json\<close> builds is a JSON value. The serializer
  \<^verbatim>\<open>json.dumps\<close> belongs to Python's library: the second output of the node is
  either a literal text or \<open>Dumps v n\<close>, which stands for
  \<^verbatim>\<open>json.dumps(v, indent=n)\<close>.
\<close>

datatype json = JNull | JNum pynum | JStr string | JObj "(string \<times> json) list"

datatype json_out = Text string | Dumps json nat

fun truthy :: "string option \<Rightarrow> bool" where
  "truthy None = False"
| "truthy (Some s) = (s \<noteq> [])"

definition camera_data ::
  "pynum \<Rightarrow> pynum \<Rightarrow> pynum \<Rightarrow> real \<Rightarrow> real \<Rightarrow> string option \<Rightarrow> (string \<times> json) list" where
  "camera_data pitch yaw roll distance_meters focal_length_mm shot_type_name =
     (let shot_type_json =
            (case shot_type_name of
               Some s \<Rightarrow>
                 if s \<noteq> []
                 then Some (lower (replace_char CHR ''-'' CHR ''_'' (replace_char CHR '' '' CHR ''_'' s)))
                 else None
             | None \<Rightarrow> None);
          tilt_deg_value = round_num pitch 1;
          tilt_deg_str =
            (if val pitch > 0 then ''tilt down '' @ str_num1 (abs_num tilt_deg_value)
             else if val pitch < 0 then ''tilt up '' @ str_num1 (abs_num tilt_deg_value)
             else ''tilt '' @ str_num1 tilt_deg_value);
          pan_deg_value = round_num yaw 1;
          pan_deg_str =
            (if val yaw > 0 then ''pan to right '' @ str_num1 (abs_num pan_deg_value)
             else if val yaw < 0 then ''pan to left '' @ str_num1 (abs_num pan_deg_value)
             else ''pan '' @ str_num1 pan_deg_value)
      in [(''focal_length_mm'',
             if focal_length_mm \<noteq> 0 then JNum (PInt (py_int focal_length_mm)) else JNull),
          (''sensor_width_mm'', JNum (PInt (py_int SENSOR_WIDTH_MM))),
          (''sensor_height_mm'', JNum (PInt (py_int SENSOR_HEIGHT_MM))),
          (''distance_m'', JNum (PFloat (py_round distance_meters 2))),
          (''tilt_deg'', JStr tilt_deg_str),
          (''pan_deg'', JStr pan_deg_str),
          (''roll_deg'', JNum (round_num roll 1)),
          (''shot_type'', case shot_type_json of Some s \<Rightarrow> JStr s | None \<Rightarrow> JNull)])"

definition generate_camera_json ::
  "point \<Rightarrow> point \<Rightarrow> pynum \<Rightarrow> pynum \<Rightarrow> pynum \<Rightarrow> real \<Rightarrow> real \<Rightarrow> real option
     \<Rightarrow> string option \<Rightarrow> json_out" where
  "generate_camera_json position target pitch yaw roll distance_meters focal_length_mm fov
       shot_type_name =
     Dumps (JObj [(''camera'',
                   JObj (camera_data pitch yaw roll distance_meters focal_length_mm
                           shot_type_name))]) 4"

text \<open>A field of the record under the key \<^verbatim>\<open>camera\<close> of a serialized output.\<close>

fun camera_field :: "json_out \<Rightarrow> string \<Rightarrow> json option" where
  "camera_field (Dumps (JObj entries) n) k =
     (case map_of entries ''camera'' of
        Some (JObj kvs) \<Rightarrow> map_of kvs k
      | _ \<Rightarrow> None)"
| "camera_field _ k = None"

subsection \<open>The node\<close>

text \<open>
  \<^verbatim>\<open>camera_info\<close> is the dict a Load 3D node hands over: the keys
  \<^verbatim>\<open>position\<close> and \<^verbatim>\<open>target\<close> hold points, \<^verbatim>\<open>zoom\<close> a number, and a
  key that is missing is \<open>None\<close>. \<open>ci_other_keys\<close> lists the further keys of the
  dict, which the node never reads.
\<close>

record camera_info =
  ci_position :: "point option"
  ci_target :: "point option"
  ci_zoom :: "real option"
  ci_other_keys :: "string list"

text \<open>\<^verbatim>\<open>not camera_info\<close>: the parameter is \<^verbatim>\<open>None\<close> or a dict without keys.\<close>

fun not_camera_info :: "camera_info option \<Rightarrow> bool" where
  "not_camera_info None = True"
| "not_camera_info (Some ci) =
     (ci_position ci = None \<and> ci_target ci = None \<and> ci_zoom ci = None \<and> ci_other_keys ci = [])"

text \<open>
  The stages of \<^verbatim>\<open>generate_prompt\<close> past its guard, each the value of one
  local: the angle name (lines 118 to 120), the tilt phrase (130 to 133), the two pieces
  of the shot prompt (135 to 142) and the assembly of the prompt (125 to 128 and 144 to
  176).
\<close>

definition angle_type_of :: "real \<Rightarrow> real \<Rightarrow> string option" where
  "angle_type_of pitch roll =
     (if \<bar>pitch\<bar> > EYE_LEVEL_TOLERANCE then Some (get_angle_type_name pitch roll) else None)"

definition vertical_angle_text_of :: "real \<Rightarrow> string option \<Rightarrow> string option" where
  "vertical_angle_text_of pitch angle_type =
     (if \<bar>pitch\<bar> > EYE_LEVEL_TOLERANCE \<and> truthy angle_type then
        (let pitch_deg = py_int \<bar>pitch\<bar>
         in if pitch > 0
            then Some (''tilt down at '' @ str_int pitch_deg @ '' degree'')
            else Some (''tilt up at '' @ str_int pitch_deg @ '' degree''))
      else None)"

definition shot_type_name_of :: "string \<Rightarrow> string option" where
  "shot_type_name_of shot_prompt =
     (if shot_prompt \<noteq> [] then
        (if CHR ''('' \<in> set shot_prompt then Some (strip (split_paren_0 shot_prompt))
         else Some (strip shot_prompt))
      else None)"

definition camera_info_text_of :: "string \<Rightarrow> string option" where
  "camera_info_text_of shot_prompt =
     (if shot_prompt \<noteq> [] \<and> CHR ''('' \<in> set shot_prompt
      then Some (''('' @ strip (split_paren_1 shot_prompt))
      else None)"

definition assemble_prompt ::
  "string \<Rightarrow> string option \<Rightarrow> string option \<Rightarrow> string option \<Rightarrow> string option \<Rightarrow> string
     \<Rightarrow> string" where
  "assemble_prompt position_prompt vertical_angle_text angle_type shot_type_name
       camera_info_text custom_description =
     (let camera_position_text = (if position_prompt \<noteq> [] then Some position_prompt else None);
          movement_parts =
            (if truthy camera_position_text then [the camera_position_text] else [])
            @ (if truthy vertical_angle_text then [the vertical_angle_text] else []);
          angle_shot_parts =
            (if truthy angle_type then [the angle_type] else [])
            @ (if truthy shot_type_name then [the shot_type_name] else []);
          description_parts =
            (if movement_parts \<noteq> [] then
               (let movement_str = join '' and '' movement_parts
                in if angle_shot_parts \<noteq> []
                   then [movement_str @ '', '' @ join '' '' angle_shot_parts]
                   else [movement_str @ ''.''])
             else if angle_shot_parts \<noteq> [] then [join '' '' angle_shot_parts @ ''.'']
             else []);
          prompt_parts =
            (if description_parts \<noteq> [] then [join '' '' description_parts] else [])
            @ (if truthy camera_info_text then [the camera_info_text] else [])
            @ (if custom_description \<noteq> [] \<and> strip custom_description \<noteq> []
               then [strip custom_description] else [])
      in join '' '' prompt_parts)"

text \<open>The locals of \<^verbatim>\<open>generate_prompt\<close> past its guard.\<close>

record prompt_locals =
  l_distance :: real
  l_distance_meters :: real
  l_pitch :: pynum
  l_yaw :: pynum
  l_roll :: pynum
  l_fov :: "real option"
  l_angle_type :: "string option"
  l_shot_prompt :: string
  l_position_prompt :: string
  l_vertical_angle_text :: "string option"
  l_shot_type_name :: "string option"
  l_camera_info_text :: "string option"
  l_final_prompt :: string
  l_camera_json :: json_out

definition generate_prompt_locals ::
  "camera_info \<Rightarrow> real \<Rightarrow> real option \<Rightarrow> string \<Rightarrow> prompt_locals" where
  "generate_prompt_locals ci focal_length_mm object_scale_meters custom_description =
     (let position = dict_of (ci_position ci);
          target = dict_of (ci_target ci);
          zoom = (case ci_zoom ci of Some z \<Rightarrow> z | None \<Rightarrow> 1);
          distance = calculate_distance (Some position) (Some target);
          distance_meters = distance * GRID_TO_METERS;
          (pitch, yaw, roll) = calculate_camera_angles (Some position) (Some target);
          fov = calculate_fov_from_focal_length focal_length_mm True;
          angle_type = angle_type_of (val pitch) (val roll);
          shot_prompt = get_shot_type_prompt distance zoom fov (Some focal_length_mm)
                          object_scale_meters;
          position_prompt = get_camera_position_prompt (Some position) (Some target)
                              (val pitch) (val yaw);
          vertical_angle_text = vertical_angle_text_of (val pitch) angle_type;
          shot_type_name = shot_type_name_of shot_prompt;
          camera_info_text = camera_info_text_of shot_prompt;
          final_prompt = assemble_prompt position_prompt vertical_angle_text angle_type
                           shot_type_name camera_info_text custom_description;
          camera_json = generate_camera_json position target pitch yaw roll distance_meters
                          focal_length_mm fov shot_type_name
      in \<lparr>l_distance = distance, l_distance_meters = distance_meters,
          l_pitch = pitch, l_yaw = yaw, l_roll = roll, l_fov = fov,
          l_angle_type = angle_type, l_shot_prompt = shot_prompt,
          l_position_prompt = position_prompt,
          l_vertical_angle_text = vertical_angle_text,
          l_shot_type_name = shot_type_name, l_camera_info_text = camera_info_text,
          l_final_prompt = final_prompt, l_camera_json = camera_json\<rparr>)"

text \<open>\<^verbatim>\<open>generate_prompt\<close>: the guard, then the two outputs.\<close>

definition generate_prompt ::
  "camera_info option \<Rightarrow> real \<Rightarrow> real option \<Rightarrow> string \<Rightarrow> string \<times> json_out" where
  "generate_prompt camera_info focal_length_mm object_scale_meters custom_description =
     (if not_camera_info camera_info then ([], Text ''{}'')
      else
        let l = generate_prompt_locals (the camera_info) focal_length_mm object_scale_meters
                  custom_description
        in (l_final_prompt l, l_camera_json l))"

subsection \<open>Notions of the specification\<close>

text \<open>The offset of the position from the target along one axis.\<close>

definition offset :: "point option \<Rightarrow> point option \<Rightarrow> string \<Rightarrow> real" where
  "offset position target k = get0 (dict_of position) k - get0 (dict_of target) k"

section \<open>Auxiliary facts\<close>

subsection \<open>Bounds on the arc tangent and on \<open>\<pi>\<close>\<close>

text \<open>
  The partial sums of the alternating series of \<open>arctan\<close> enclose its value on
  \<open>[0, 1]\<close>; Machin's formula carries the enclosure over to \<open>\<pi>\<close>.
\<close>

lemma arctan_series_bounds:
  fixes x :: real
  assumes "0 \<le> x" "x \<le> 1"
  shows "(\<Sum>i<2*n. (-1)^i * (1 / real (i*2+1) * x^(i*2+1))) \<le> arctan x"
    and "arctan x \<le> (\<Sum>i<2*n+1. (-1)^i * (1 / real (i*2+1) * x^(i*2+1)))"
proof -
  let ?a = "\<lambda>n. 1 / real (n*2+1) * x^(n*2+1)"
  have ax: "\<bar>x\<bar> \<le> 1" using assms by simp
  have z: "?a \<longlonglongrightarrow> 0" by (rule zeroseq_arctan_series[OF ax])
  have p: "0 \<le> ?a k" for k using assms by simp
  have m: "?a (Suc k) \<le> ?a k" for k
  proof -
    have "x ^ (Suc k * 2 + 1) \<le> x ^ (k * 2 + 1)"
      using assms by (intro power_decreasing) auto
    moreover have "1 / real (Suc k * 2 + 1) \<le> 1 / real (k * 2 + 1)"
      by (intro divide_left_mono) auto
    ultimately show ?thesis
      using assms by (intro mult_mono) auto
  qed
  have s: "arctan x = (\<Sum>k. (-1)^k * ?a k)" by (rule arctan_series[OF ax])
  show "(\<Sum>i<2*n. (-1)^i * ?a i) \<le> arctan x"
    unfolding s by (rule summable_Leibniz'(2)[OF z p m])
  show "arctan x \<le> (\<Sum>i<2*n+1. (-1)^i * ?a i)"
    unfolding s by (rule summable_Leibniz'(4)[OF z p m])
qed

lemma arctan_upper1: "0 \<le> x \<Longrightarrow> x \<le> 1 \<Longrightarrow> arctan (x::real) \<le> x"
  using arctan_series_bounds(2)[of x 0] by simp

lemma arctan_lower2: "0 \<le> x \<Longrightarrow> x \<le> 1 \<Longrightarrow> x - x^3 / 3 \<le> arctan (x::real)"
  using arctan_series_bounds(1)[of x 1] by (simp add: numeral_2_eq_2 numeral_3_eq_3)

lemma arctan_upper3: "0 \<le> x \<Longrightarrow> x \<le> 1 \<Longrightarrow> arctan (x::real) \<le> x - x^3 / 3 + x^5 / 5"
  using arctan_series_bounds(2)[of x 1] by (simp add: eval_nat_numeral)

lemma pi_lower: "157 / 50 < pi"
proof -
  have "pi / 4 = 4 * arctan (1 / 5) - arctan (1 / 239)" by (rule machin)
  moreover have "74 / 375 \<le> arctan (1 / 5 :: real)"
    using arctan_lower2[of "1 / 5"] by (simp add: power3_eq_cube)
  moreover have "arctan (1 / 239 :: real) \<le> 1 / 239" by (rule arctan_upper1) auto
  ultimately show ?thesis by linarith
qed

lemma pi_upper: "pi < 79 / 25"
proof -
  have "pi / 4 = 4 * arctan (1 / 5) - arctan (1 / 239)" by (rule machin)
  moreover have "arctan (1 / 5 :: real) \<le> 9253 / 46875"
    using arctan_upper3[of "1 / 5"] by (simp add: power3_eq_cube eval_nat_numeral)
  moreover have "0 \<le> arctan (1 / 239 :: real)" by simp
  ultimately show ?thesis by linarith
qed

subsection \<open>Square roots\<close>

lemma sqrt_ge_abs: "\<bar>z\<bar> \<le> sqrt (x * x + z * z)"
  using real_sqrt_le_mono [of "z * z" "x * x + z * z"] by simp

lemma sqrt_25_256: "sqrt (25 / 256) = 5 / 16"
  by (rule real_sqrt_unique) (simp_all add: power2_eq_square)

lemma sqrt_quarter: "sqrt (1 / 4) = 1 / 2"
  by (simp add: real_sqrt_divide)

subsection \<open>The distance tier\<close>

lemma framing_tier_no_scale: "framing_tier None distance_meters estimated_focal = None"
  by (simp add: framing_tier_def split: option.splits)

lemma distance_tier_range:
  "framing_tier object_scale_meters distance_meters estimated_focal = None \<Longrightarrow>
   0.3 \<le> distance_meters \<Longrightarrow> distance_meters \<le> 1.2 \<Longrightarrow>
   shot_type_of distance_meters fov estimated_focal object_scale_meters =
     (if distance_meters \<le> 0.6 then ''extreme close-up'' else ''close-up'')"
  by (simp add: shot_type_of_def CAMERA_SHOTS_def shot_type_of_name_def Let_def
      split: option.splits)

lemma shot_prompt_shape:
  "\<exists>info. get_shot_type_prompt distance zoom fov focal_length_mm object_scale_meters =
     shot_type_of (distance * GRID_TO_METERS) fov
       (if focal_length_mm = None \<and> fov \<noteq> None then estimate_focal_length fov
        else focal_length_mm) object_scale_meters
     @ '' ('' @ info @ '')''"
  by (simp add: get_shot_type_prompt_def Let_def)

subsection \<open>The node's outputs\<close>

lemma angles_roll:
  assumes "calculate_camera_angles (Some p) (Some t) = (pitch, yaw, roll)"
  shows "roll = (if p = [] \<or> t = [] then PInt 0 else PFloat 0)"
  using assms by (auto simp add: calculate_camera_angles_def Let_def split: if_splits)

lemma no_dutch_without_roll:
  "get_angle_type_name x 0 \<noteq> ''dutch angle'' \<and> get_angle_type_name x 0 \<noteq> ''dutch low angle''"
  by (simp add: get_angle_type_name_def CAMERA_ANGLES_def tilt_name_def pitch_fallback_def
      DUTCH_ANGLE_ROLL_MIN_def BIRD_EYE_MIN_def HIGH_ANGLE_MIN_def WORM_EYE_MAX_def)

lemma generate_prompt_nonempty:
  "\<not> not_camera_info (Some ci) \<Longrightarrow>
     generate_prompt (Some ci) f obj c =
       (l_final_prompt (generate_prompt_locals ci f obj c),
        l_camera_json (generate_prompt_locals ci f obj c))"
  by (auto simp add: generate_prompt_def Let_def)

lemma distance_m_field:
  "camera_field (l_camera_json (generate_prompt_locals ci f obj c)) ''distance_m''
     = Some (JNum (PFloat (py_round
         (calculate_distance (Some (dict_of (ci_position ci))) (Some (dict_of (ci_target ci)))
            * 4.0) 2)))"
  by (simp add: generate_prompt_locals_def Let_def generate_camera_json_def camera_data_def
      GRID_TO_METERS_def split: prod.splits)

lemma roll_deg_field:
  "camera_field (l_camera_json (generate_prompt_locals ci f obj c)) ''roll_deg''
     = Some (JNum (if dict_of (ci_position ci) = [] \<or> dict_of (ci_target ci) = []
                   then PInt 0 else PFloat 0))"
proof -
  obtain pitch yaw roll where
    a: "calculate_camera_angles (Some (dict_of (ci_position ci))) (Some (dict_of (ci_target ci)))
          = (pitch, yaw, roll)"
    using prod_cases3 by blast
  have r: "round_num roll 1 = (if dict_of (ci_position ci) = [] \<or> dict_of (ci_target ci) = []
                               then PInt 0 else PFloat 0)"
    using angles_roll [OF a] by (auto simp add: py_round_def round_half_even_def)
  show ?thesis
    using r
    by (simp add: generate_prompt_locals_def Let_def a generate_camera_json_def camera_data_def)
qed

lemma distance_5_16:
  "calculate_distance (Some [(''z'', 5 / 16)]) (Some [(''z'', 0)]) = 5 / 16"
  by (simp add: calculate_distance_def get0_def sqrt_25_256)

subsection \<open>The default pose and the 50 mm lens\<close>

lemma fov_50_bounds:
  "39 \<le> 2 * arctan (36 / (2 * 50)) * 180 / pi" "2 * arctan (36 / (2 * 50)) * 180 / pi < (40::real)"
proof -
  have lo: "(0.344::real) \<le> arctan (36 / (2 * 50))"
    using arctan_lower2[of "36 / (2 * 50)"] by (simp add: power3_eq_cube)
  have hi: "arctan (36 / (2 * 50)) \<le> (0.346::real)"
    using arctan_upper3[of "36 / (2 * 50)"] by (simp add: power3_eq_cube eval_nat_numeral)
  have "39 * pi \<le> 2 * arctan (36 / (2 * 50)) * 180" using lo pi_upper by simp
  then show "39 \<le> 2 * arctan (36 / (2 * 50)) * 180 / pi" by (simp add: field_simps)
  have "2 * arctan (36 / (2 * 50)) * 180 < 40 * pi" using hi pi_lower by simp
  then show "2 * arctan (36 / (2 * 50)) * 180 / pi < (40::real)" by (simp add: field_simps)
qed

lemma fov_50_some: "\<exists>f. calculate_fov_from_focal_length 50 True = Some f"
  by (simp add: calculate_fov_from_focal_length_def Let_def)

lemma fov_50_int:
  assumes "calculate_fov_from_focal_length 50 True = Some f"
  shows "py_int f = 39"
proof -
  have f: "f = 2 * arctan (36 / (2 * 50)) * 180 / pi"
    using assms
    by (simp add: calculate_fov_from_focal_length_def SENSOR_WIDTH_MM_def Let_def degrees_def)
  have "39 \<le> f" "f < 40"
    unfolding f using fov_50_bounds by simp_all
  then show ?thesis by (simp add: py_int_def floor_eq_iff)
qed

lemma default_distance: "calculate_distance (Some DEFAULT_POSITION) (Some DEFAULT_TARGET) = 1 / 2"
  by (simp add: calculate_distance_def DEFAULT_POSITION_def DEFAULT_TARGET_def get0_def
      sqrt_quarter)

lemma default_angles:
  "calculate_camera_angles (Some DEFAULT_POSITION) (Some DEFAULT_TARGET)
     = (PFloat 0, PFloat 180, PFloat 0)"
  by (simp add: calculate_camera_angles_def DEFAULT_POSITION_def DEFAULT_TARGET_def get0_def
      atan2_def degrees_def sqrt_quarter)

lemma default_shot_prompt:
  assumes "calculate_fov_from_focal_length 50 True = Some f"
  shows "get_shot_type_prompt (1 / 2) zoom (Some f) (Some 50) None
           = ''medium shot (camera distance 2.0 m 50mm FOV 39'' @ [CHR 0xB0] @ '')''"
proof -
  have i: "py_int 50 = 50" by (simp add: py_int_def)
  show ?thesis
    by (simp add: get_shot_type_prompt_def Let_def fov_50_int[OF assms] i GRID_TO_METERS_def
        format_1f_def round_half_even_def str_nat.simps digit_def str_int_def shot_type_of_def
        framing_tier_def CAMERA_SHOTS_def shot_type_of_name_def)
qed

lemma default_position_prompt:
  "get_camera_position_prompt (Some DEFAULT_POSITION) (Some DEFAULT_TARGET) 0 180 = []"
  by (simp add: get_camera_position_prompt_def DEFAULT_POSITION_def DEFAULT_TARGET_def
      get0_def atan2_def degrees_def py_int_def sqrt_quarter)

subsection \<open>A bearing of 39 degrees\<close>

lemma bearing_39: "py_int (degrees (atan2 0.09 0.11)) = 39"
proof -
  have s: "arctan (9 / 11) + arctan (1 / 10) = arctan (1::real)"
    using arctan_add [of "9 / 11" "1 / 10"] by simp
  have lo: "299 / 3000 \<le> arctan (1 / 10 :: real)"
    using arctan_lower2 [of "1 / 10"] by (simp add: power3_eq_cube)
  have hi: "arctan (1 / 10 :: real) \<le> 1 / 10"
    by (rule arctan_upper1) auto
  have a: "atan2 0.09 0.11 = pi / 4 - arctan (1 / 10)"
    using s by (simp add: atan2_def arctan_one)
  have "39 * pi \<le> (pi / 4 - arctan (1 / 10)) * 180"
    using hi pi_lower by simp
  then have l: "39 \<le> degrees (atan2 0.09 0.11)"
    unfolding a degrees_def by (simp add: field_simps)
  have "(pi / 4 - arctan (1 / 10)) * 180 < 40 * pi"
    using lo pi_upper by simp
  then have u: "degrees (atan2 0.09 0.11) < 40"
    unfolding a degrees_def by (simp add: field_simps)
  show ?thesis using l u by (simp add: py_int_def floor_eq_iff)
qed

section \<open>The claims\<close>

subsection \<open>Shot classification at the boundary\<close>

text \<open>
  C1, as the code has it. When the framing tier gives no shot type, as it does without
  an object scale, the distance tier decides for every distance in metres from \<open>0.3\<close>
  to \<open>1.2\<close>: the ranges of the table include both ends and the first match wins, so
  \<open>0.6\<close>, the upper end of the first range, is an extreme close-up, and a close-up
  begins above \<open>0.6\<close>. The shot prompt opens with that shot type.
\<close>

theorem distance_tier_boundary:
  assumes lo: "0.3 \<le> distance * GRID_TO_METERS" and hi: "distance * GRID_TO_METERS \<le> 1.2"
  shows "(framing_tier object_scale_meters (distance * GRID_TO_METERS) estimated_focal = None
          \<longrightarrow> shot_type_of (distance * GRID_TO_METERS) fov estimated_focal object_scale_meters
              = (if distance * GRID_TO_METERS \<le> 0.6 then ''extreme close-up''
                 else ''close-up'')) \<and>
         (\<exists>info. get_shot_type_prompt distance zoom fov focal_length_mm None
            = (if distance * GRID_TO_METERS \<le> 0.6 then ''extreme close-up'' else ''close-up'')
              @ '' ('' @ info @ '')'')"
proof
  show "framing_tier object_scale_meters (distance * GRID_TO_METERS) estimated_focal = None
          \<longrightarrow> shot_type_of (distance * GRID_TO_METERS) fov estimated_focal object_scale_meters
              = (if distance * GRID_TO_METERS \<le> 0.6 then ''extreme close-up''
                 else ''close-up'')"
    using distance_tier_range [OF _ lo hi] by blast
next
  obtain info where
    "get_shot_type_prompt distance zoom fov focal_length_mm None =
       shot_type_of (distance * GRID_TO_METERS) fov
         (if focal_length_mm = None \<and> fov \<noteq> None then estimate_focal_length fov
          else focal_length_mm) None
       @ '' ('' @ info @ '')''"
    using shot_prompt_shape by blast
  then show "\<exists>info. get_shot_type_prompt distance zoom fov focal_length_mm None
            = (if distance * GRID_TO_METERS \<le> 0.6 then ''extreme close-up'' else ''close-up'')
              @ '' ('' @ info @ '')''"
    unfolding distance_tier_range [OF framing_tier_no_scale lo hi] by blast
qed

theorem distance_tier_boundary_witness:
  "0.3 \<le> 0.15 * GRID_TO_METERS \<and> 0.15 * GRID_TO_METERS \<le> 1.2 \<and>
   0.15 * GRID_TO_METERS = 0.6 \<and>
   framing_tier None (0.15 * GRID_TO_METERS) (Some 50) = None \<and>
   shot_type_of (0.15 * GRID_TO_METERS) (Some 39) (Some 50) None = ''extreme close-up'' \<and>
   (\<exists>info. get_shot_type_prompt 0.15 1 (Some 39) (Some 50) None
      = ''extreme close-up ('' @ info @ '')'')"
  using distance_tier_boundary [of "0.15" None "Some 50" "Some 39" 1 "Some 50"]
  by (simp add: framing_tier_def GRID_TO_METERS_def)

text \<open>
  C1 as it is stated fails: a grid distance of \<open>0.15\<close> is \<open>0.6\<close> metres, nothing but
  the distance is known, and the shot type is not a close-up.
\<close>

theorem distance_tier_counterexample:
  "0.15 * GRID_TO_METERS = 0.6 \<and>
   shot_type_of (0.15 * GRID_TO_METERS) None None None \<noteq> ''close-up'' \<and>
   get_shot_type_prompt 0.15 1 None None None = ''extreme close-up (camera distance 0.6 m)''"
  by (simp add: get_shot_type_prompt_def shot_type_of_def framing_tier_def CAMERA_SHOTS_def
      GRID_TO_METERS_def shot_type_of_name_def format_1f_def round_half_even_def
      str_nat.simps digit_def Let_def)

subsection \<open>Angle classification\<close>

text \<open>
  C2. For a pitch of more than five degrees either way and a roll of \<open>0\<close>,
  \<^verbatim>\<open>_get_angle_type_name\<close> returns what the specification describes: the name of
  the first range of the tilt table, in declaration order, that holds \<open>- pitch\<close> with
  both ends included, and the result of the numeric thresholds when no range holds it.
\<close>

theorem angle_class_refines_spec:
  "\<bar>pitch\<bar> > 5 \<Longrightarrow> roll = 0 \<Longrightarrow> get_angle_type_name pitch roll = spec_angle_class pitch"
  by (simp add: get_angle_type_name_def spec_angle_class_def CAMERA_ANGLES_def
      spec_tilt_table_def tilt_name_def pitch_fallback_def spec_numeric_fallback_def
      DUTCH_ANGLE_ROLL_MIN_def BIRD_EYE_MIN_def HIGH_ANGLE_MIN_def WORM_EYE_MAX_def)

theorem angle_class_refines_spec_witness:
  "\<bar>- 20 :: real\<bar> > 5 \<and> get_angle_type_name (- 20) 0 = spec_angle_class (- 20) \<and>
   spec_angle_class (- 20) = ''standard low angle''"
  using angle_class_refines_spec [of "- 20" 0]
  by (simp add: spec_angle_class_def spec_tilt_table_def)

subsection \<open>Empty input\<close>

text \<open>
  C3. When \<^verbatim>\<open>camera_info\<close> is absent or is the empty dict, \<^verbatim>\<open>generate_prompt\<close>
  returns the empty prompt and the text \<^verbatim>\<open>{}\<close>, whatever the other parameters are.
\<close>

theorem generate_prompt_empty:
  "camera_info = None \<or>
   camera_info = Some \<lparr>ci_position = None, ci_target = None, ci_zoom = None,
                        ci_other_keys = []\<rparr> \<Longrightarrow>
   generate_prompt camera_info focal_length_mm object_scale_meters custom_description
     = ([], Text ''{}'')"
  by (auto simp add: generate_prompt_def)

theorem generate_prompt_empty_witness:
  "generate_prompt None 50 None [] = ([], Text ''{}'') \<and>
   generate_prompt (Some \<lparr>ci_position = None, ci_target = None, ci_zoom = None,
                           ci_other_keys = []\<rparr>) 50 (Some 1) ''a portrait''
     = ([], Text ''{}'') \<and>
   length ''{}'' = 2"
  using generate_prompt_empty [of None 50 None "[]"]
    generate_prompt_empty [of "Some \<lparr>ci_position = None, ci_target = None, ci_zoom = None,
                                     ci_other_keys = []\<rparr>" 50 "Some 1" "''a portrait''"]
  by simp

subsection \<open>Camera angles\<close>

text \<open>
  C4, as the code has it. When the position or the target is absent or empty the angles
  are the integers \<open>(0, 0, 0)\<close>. Otherwise the pitch is
  \<open>degrees (atan2 dy horizontal)\<close> when \<open>horizontal = sqrt (dx\<^sup>2 + dz\<^sup>2)\<close> exceeds
  \<open>0.001\<close>, and else \<open>90\<close> for \<open>dy > 0\<close> and \<open>- 90\<close> for \<open>dy \<le> 0\<close>; the yaw is
  \<open>degrees (atan2 dx (- dz))\<close> when \<open>\<bar>dz\<bar>\<close> exceeds \<open>0.001\<close>, and else \<open>0\<close>; the roll
  is \<open>0\<close>.
\<close>

theorem camera_angles_formula:
  "calculate_camera_angles position target =
     (if position = None \<or> position = Some [] \<or> target = None \<or> target = Some []
      then (PInt 0, PInt 0, PInt 0)
      else
        let dx = get0 (dict_of position) ''x'' - get0 (dict_of target) ''x'';
            dy = get0 (dict_of position) ''y'' - get0 (dict_of target) ''y'';
            dz = get0 (dict_of position) ''z'' - get0 (dict_of target) ''z'';
            horizontal = sqrt (dx\<^sup>2 + dz\<^sup>2)
        in (PFloat (if horizontal > 0.001 then degrees (atan2 dy horizontal)
                    else if dy > 0 then 90 else - 90),
            PFloat (if \<bar>dz\<bar> > 0.001 then degrees (atan2 dx (- dz)) else 0),
            PFloat 0))"
  by (cases position; cases target)
     (simp_all add: calculate_camera_angles_def Let_def power2_eq_square)

text \<open>
  C4 as it is stated, for every position and target, fails at the empty position with
  the target \<^verbatim>\<open>{"y": 1}\<close>: the horizontal distance is \<open>0\<close> and \<open>dy = - 1\<close>, so the
  stated pitch is \<open>- 90\<close>, and the code returns the pitch \<open>0\<close>.
\<close>

theorem camera_angles_counterexample:
  "\<not> sqrt ((get0 [] ''x'' - get0 [(''y'', 1)] ''x'')\<^sup>2
            + (get0 [] ''z'' - get0 [(''y'', 1)] ''z'')\<^sup>2) > 0.001 \<and>
   \<not> get0 [] ''y'' - get0 [(''y'', 1)] ''y'' > 0 \<and>
   calculate_camera_angles (Some []) (Some [(''y'', 1)]) = (PInt 0, PInt 0, PInt 0) \<and>
   val (fst (calculate_camera_angles (Some []) (Some [(''y'', 1)]))) \<noteq> - 90"
  by (simp add: calculate_camera_angles_def get0_def)

subsection \<open>The distance in the record\<close>

text \<open>
  C5, as the code has it. For a camera_info that is not empty, the field
  \<^verbatim>\<open>distance_m\<close> of the record is the grid distance times \<open>4.0\<close>, rounded to two
  decimal places.
\<close>

theorem distance_m_two_decimals:
  "\<not> not_camera_info (Some ci) \<Longrightarrow>
   camera_field (snd (generate_prompt (Some ci) focal_length_mm object_scale_meters
                        custom_description)) ''distance_m''
     = Some (JNum (PFloat (py_round
         (calculate_distance (Some (dict_of (ci_position ci))) (Some (dict_of (ci_target ci)))
            * 4.0) 2)))"
  by (simp add: generate_prompt_nonempty distance_m_field)

theorem distance_m_two_decimals_witness:
  "\<not> not_camera_info (Some \<lparr>ci_position = Some [(''z'', 5 / 16)], ci_target = Some [(''z'', 0)],
                             ci_zoom = None, ci_other_keys = []\<rparr>) \<and>
   camera_field (snd (generate_prompt
       (Some \<lparr>ci_position = Some [(''z'', 5 / 16)], ci_target = Some [(''z'', 0)],
              ci_zoom = None, ci_other_keys = []\<rparr>) 50 None [])) ''distance_m''
     = Some (JNum (PFloat (5 / 4)))"
  using distance_m_two_decimals
    [of "\<lparr>ci_position = Some [(''z'', 5 / 16)], ci_target = Some [(''z'', 0)],
          ci_zoom = None, ci_other_keys = []\<rparr>" 50 None "[]"]
  by (simp add: distance_5_16 py_round_def round_half_even_def)

text \<open>
  C5 as it is stated fails: at the grid distance \<open>5 / 16\<close> the distance is \<open>1.25\<close>
  metres, rounding to one decimal place gives \<open>1.2\<close>, and the field holds \<open>1.25\<close>.
\<close>

theorem distance_m_counterexample:
  "calculate_distance (Some [(''z'', 5 / 16)]) (Some [(''z'', 0)]) = 5 / 16 \<and>
   py_round (5 / 16 * 4.0) 1 = 12 / 10 \<and>
   camera_field (snd (generate_prompt
       (Some \<lparr>ci_position = Some [(''z'', 5 / 16)], ci_target = Some [(''z'', 0)],
              ci_zoom = None, ci_other_keys = []\<rparr>) 50 None [])) ''distance_m''
     \<noteq> Some (JNum (PFloat (py_round (5 / 16 * 4.0) 1)))"
  by (simp add: generate_prompt_nonempty distance_m_field distance_5_16 py_round_def
      round_half_even_def)

subsection \<open>Distance\<close>

text \<open>
  C6. \<^verbatim>\<open>_calculate_distance\<close> returns \<open>0\<close> whenever the position or the target
  is absent (\<^verbatim>\<open>None\<close>) or empty, and otherwise the Euclidean norm of the
  difference of the two points in three dimensions, a coordinate that is missing from a
  dict counting as \<open>0\<close>.
\<close>

theorem calculate_distance_norm:
  "calculate_distance position target =
     (if position = None \<or> position = Some [] \<or> target = None \<or> target = Some [] then 0
      else sqrt ((get0 (dict_of position) ''x'' - get0 (dict_of target) ''x'')\<^sup>2
               + (get0 (dict_of position) ''y'' - get0 (dict_of target) ''y'')\<^sup>2
               + (get0 (dict_of position) ''z'' - get0 (dict_of target) ''z'')\<^sup>2))"
  by (cases position; cases target) (simp_all add: calculate_distance_def Let_def power2_eq_square)

subsection \<open>The default pose\<close>

text \<open>
  C8. At the position \<^verbatim>\<open>{x: 0, y: 0.425, z: 0.5}\<close> and the target
  \<^verbatim>\<open>{x: 0, y: 0.425, z: 0}\<close>, which are the class constants
  \<^verbatim>\<open>DEFAULT_POSITION\<close> and \<^verbatim>\<open>DEFAULT_TARGET\<close>, with a focal length of 50 mm,
  no object scale and no custom description: the grid distance is \<open>0.5\<close> and the
  distance \<open>2.0\<close> metres, in the record too; the pitch is \<open>0\<close>, so there is neither a
  tilt phrase nor an angle name; the bearing is \<open>0\<close> with \<open>z > 0.1\<close>, so the position
  phrase is empty; the field of view is that of the 36 mm sensor, whose whole degrees
  are \<open>39\<close>; and the prompt is the shot name, closed by a full stop, and the clause of
  the camera parameters.
\<close>

theorem default_pose_scenario:
  "DEFAULT_POSITION = [(''x'', 0), (''y'', 0.425), (''z'', 0.5)] \<and>
   DEFAULT_TARGET = [(''x'', 0), (''y'', 0.425), (''z'', 0)] \<and>
   (let ci = \<lparr>ci_position = Some DEFAULT_POSITION, ci_target = Some DEFAULT_TARGET,
               ci_zoom = zoom, ci_other_keys = keys\<rparr>;
        l = generate_prompt_locals ci 50 None []
    in l_distance l = 0.5 \<and>
       l_distance_meters l = 2.0 \<and>
       camera_field (l_camera_json l) ''distance_m'' = Some (JNum (PFloat 2.0)) \<and>
       val (l_pitch l) = 0 \<and>
       l_vertical_angle_text l = None \<and>
       l_angle_type l = None \<and>
       degrees (atan2 (offset (Some DEFAULT_POSITION) (Some DEFAULT_TARGET) ''x'')
                      (offset (Some DEFAULT_POSITION) (Some DEFAULT_TARGET) ''z'')) = 0 \<and>
       offset (Some DEFAULT_POSITION) (Some DEFAULT_TARGET) ''z'' > 0.1 \<and>
       l_position_prompt l = [] \<and>
       l_fov l = Some (degrees (2 * arctan (SENSOR_WIDTH_MM / (2 * 50)))) \<and>
       py_int (degrees (2 * arctan (SENSOR_WIDTH_MM / (2 * 50)))) = 39 \<and>
       l_shot_prompt l = ''medium shot (camera distance 2.0 m 50mm FOV 39'' @ [CHR 0xB0] @ '')'' \<and>
       l_final_prompt l
         = ''medium shot. (camera distance 2.0 m 50mm FOV 39'' @ [CHR 0xB0] @ '')'' \<and>
       fst (generate_prompt (Some ci) 50 None []) = l_final_prompt l)"
proof -
  obtain f where f: "calculate_fov_from_focal_length 50 True = Some f"
    using fov_50_some by blast
  have f': "f = degrees (2 * arctan (SENSOR_WIDTH_MM / (2 * 50)))"
    using f by (simp add: calculate_fov_from_focal_length_def Let_def)
  have i: "py_int (degrees (2 * arctan (SENSOR_WIDTH_MM / (2 * 50)))) = 39"
    using fov_50_int [OF f] unfolding f' .
  have b: "degrees (atan2 (offset (Some DEFAULT_POSITION) (Some DEFAULT_TARGET) ''x'')
                      (offset (Some DEFAULT_POSITION) (Some DEFAULT_TARGET) ''z'')) = 0 \<and>
       offset (Some DEFAULT_POSITION) (Some DEFAULT_TARGET) ''z'' > 0.1"
    by (simp add: offset_def get0_def DEFAULT_POSITION_def DEFAULT_TARGET_def atan2_def
        degrees_def)
  have d: "DEFAULT_POSITION = [(''x'', 0), (''y'', 0.425), (''z'', 0.5)] \<and>
           DEFAULT_TARGET = [(''x'', 0), (''y'', 0.425), (''z'', 0)]"
    by (simp add: DEFAULT_POSITION_def DEFAULT_TARGET_def EYE_LEVEL_HEIGHT_def)
  have n: "\<not> not_camera_info (Some \<lparr>ci_position = Some DEFAULT_POSITION,
              ci_target = Some DEFAULT_TARGET, ci_zoom = zoom, ci_other_keys = keys\<rparr>)"
    by simp
  have l: "let l = generate_prompt_locals \<lparr>ci_position = Some DEFAULT_POSITION,
                     ci_target = Some DEFAULT_TARGET, ci_zoom = zoom, ci_other_keys = keys\<rparr>
                     50 None []
           in l_distance l = 1 / 2 \<and>
       l_distance_meters l = 2 \<and>
       camera_field (l_camera_json l) ''distance_m'' = Some (JNum (PFloat 2)) \<and>
       val (l_pitch l) = 0 \<and>
       l_vertical_angle_text l = None \<and>
       l_angle_type l = None \<and>
       l_position_prompt l = [] \<and>
       l_fov l = Some f \<and>
       l_shot_prompt l = ''medium shot (camera distance 2.0 m 50mm FOV 39'' @ [CHR 0xB0] @ '')'' \<and>
       l_final_prompt l
         = ''medium shot. (camera distance 2.0 m 50mm FOV 39'' @ [CHR 0xB0] @ '')''"
    by (simp add: generate_prompt_locals_def Let_def default_distance default_angles f
        default_shot_prompt [OF f] default_position_prompt GRID_TO_METERS_def
        EYE_LEVEL_TOLERANCE_def strip_def is_space_def split_paren_0_def split_paren_1_def
        generate_camera_json_def camera_data_def py_round_def round_half_even_def
        angle_type_of_def vertical_angle_text_of_def shot_type_name_of_def
        camera_info_text_of_def assemble_prompt_def)
  show ?thesis
    using l b d i unfolding generate_prompt_nonempty [OF n] f' Let_def by simp
qed

subsection \<open>Dutch angles\<close>

text \<open>
  C9, as the code has it. The roll that \<^verbatim>\<open>generate_prompt\<close> computes is \<open>0\<close> for
  every camera_info, so the angle name of the prompt is never \<^verbatim>\<open>dutch angle\<close> nor
  \<^verbatim>\<open>dutch low angle\<close>. The field \<^verbatim>\<open>roll_deg\<close> of the record is the float
  \<open>0.0\<close> when the position and the target are both present and not empty, and the
  integer \<open>0\<close> when one of them is missing or empty; for a camera_info that is absent
  or empty the output is the text \<^verbatim>\<open>{}\<close>, which has no such field.
\<close>

theorem dutch_unreachable:
  "l_angle_type (generate_prompt_locals ci focal_length_mm object_scale_meters custom_description)
     \<noteq> Some ''dutch angle'' \<and>
   l_angle_type (generate_prompt_locals ci focal_length_mm object_scale_meters custom_description)
     \<noteq> Some ''dutch low angle'' \<and>
   val (l_roll (generate_prompt_locals ci focal_length_mm object_scale_meters custom_description))
     = 0 \<and>
   camera_field (snd (generate_prompt (Some ci) focal_length_mm object_scale_meters
                        custom_description)) ''roll_deg''
     = (if not_camera_info (Some ci) then None
        else if dict_of (ci_position ci) = [] \<or> dict_of (ci_target ci) = []
        then Some (JNum (PInt 0))
        else Some (JNum (PFloat 0.0))) \<and>
   camera_field (snd (generate_prompt None focal_length_mm object_scale_meters
                        custom_description)) ''roll_deg'' = None"
proof -
  obtain pitch yaw roll where
    a: "calculate_camera_angles (Some (dict_of (ci_position ci))) (Some (dict_of (ci_target ci)))
          = (pitch, yaw, roll)"
    using prod_cases3 by blast
  have r: "roll = (if dict_of (ci_position ci) = [] \<or> dict_of (ci_target ci) = []
                   then PInt 0 else PFloat 0)"
    by (rule angles_roll [OF a])
  have n: "l_angle_type (generate_prompt_locals ci focal_length_mm object_scale_meters
                           custom_description) \<noteq> Some ''dutch angle'' \<and>
           l_angle_type (generate_prompt_locals ci focal_length_mm object_scale_meters
                           custom_description) \<noteq> Some ''dutch low angle'' \<and>
           val (l_roll (generate_prompt_locals ci focal_length_mm object_scale_meters
                          custom_description)) = 0"
    using no_dutch_without_roll
    by (simp add: generate_prompt_locals_def Let_def a r angle_type_of_def)
  have e: "camera_field (snd (generate_prompt (Some ci) focal_length_mm object_scale_meters
                        custom_description)) ''roll_deg'' = None"
    if "not_camera_info (Some ci)"
    using that by (simp add: generate_prompt_def)
  have f: "camera_field (snd (generate_prompt (Some ci) focal_length_mm object_scale_meters
                        custom_description)) ''roll_deg''
             = Some (JNum (if dict_of (ci_position ci) = [] \<or> dict_of (ci_target ci) = []
                           then PInt 0 else PFloat 0))"
    if "\<not> not_camera_info (Some ci)"
    unfolding generate_prompt_nonempty [OF that] by (simp add: roll_deg_field)
  have g: "camera_field (snd (generate_prompt None focal_length_mm object_scale_meters
                        custom_description)) ''roll_deg'' = None"
    by (simp add: generate_prompt_def)
  show ?thesis
    using n e f g by (cases "not_camera_info (Some ci)") simp_all
qed

text \<open>
  The three cases at concrete inputs: a position and a target, a target only, and no key
  at all.
\<close>

theorem dutch_unreachable_witness:
  "l_angle_type (generate_prompt_locals
       \<lparr>ci_position = Some [(''y'', 1)], ci_target = Some [(''z'', 1)],
        ci_zoom = None, ci_other_keys = []\<rparr> 50 None []) \<noteq> Some ''dutch angle'' \<and>
   l_angle_type (generate_prompt_locals
       \<lparr>ci_position = Some [(''y'', 1)], ci_target = Some [(''z'', 1)],
        ci_zoom = None, ci_other_keys = []\<rparr> 50 None []) \<noteq> Some ''dutch low angle'' \<and>
   camera_field (snd (generate_prompt
       (Some \<lparr>ci_position = Some [(''y'', 1)], ci_target = Some [(''z'', 1)],
              ci_zoom = None, ci_other_keys = []\<rparr>) 50 None [])) ''roll_deg''
     = Some (JNum (PFloat 0.0)) \<and>
   camera_field (snd (generate_prompt
       (Some \<lparr>ci_position = None, ci_target = Some [(''z'', 1)],
              ci_zoom = None, ci_other_keys = []\<rparr>) 50 None [])) ''roll_deg''
     = Some (JNum (PInt 0)) \<and>
   camera_field (snd (generate_prompt
       (Some \<lparr>ci_position = None, ci_target = None,
              ci_zoom = None, ci_other_keys = []\<rparr>) 50 None [])) ''roll_deg'' = None"
  using dutch_unreachable
    [of "\<lparr>ci_position = Some [(''y'', 1)], ci_target = Some [(''z'', 1)],
          ci_zoom = None, ci_other_keys = []\<rparr>" 50 None "[]"]
    dutch_unreachable
    [of "\<lparr>ci_position = None, ci_target = Some [(''z'', 1)],
          ci_zoom = None, ci_other_keys = []\<rparr>" 50 None "[]"]
    dutch_unreachable
    [of "\<lparr>ci_position = None, ci_target = None,
          ci_zoom = None, ci_other_keys = []\<rparr>" 50 None "[]"]
  by simp

text \<open>
  C9 as it is stated, \<^verbatim>\<open>roll_deg\<close> is always \<open>0.0\<close> for every camera_info, fails
  at the camera_info \<^verbatim>\<open>{"target": {"z": 1}}\<close>, whose position is missing: the
  guard of the angle computation returns integers and the field is the integer \<open>0\<close>,
  not the float \<open>0.0\<close>. It fails at the absent camera_info too, where the output has
  no field \<^verbatim>\<open>roll_deg\<close>.
\<close>

theorem roll_deg_counterexample:
  "camera_field (snd (generate_prompt
       (Some \<lparr>ci_position = None, ci_target = Some [(''z'', 1)],
              ci_zoom = None, ci_other_keys = []\<rparr>) 50 None [])) ''roll_deg''
     = Some (JNum (PInt 0)) \<and>
   JNum (PInt 0) \<noteq> JNum (PFloat 0.0) \<and>
   camera_field (snd (generate_prompt None 50 None [])) ''roll_deg''
     \<noteq> Some (JNum (PFloat 0.0))"
proof -
  have n: "\<not> not_camera_info (Some \<lparr>ci_position = None, ci_target = Some [(''z'', 1)],
              ci_zoom = None, ci_other_keys = []\<rparr>)"
    by simp
  show ?thesis
    unfolding generate_prompt_nonempty [OF n]
    by (simp add: roll_deg_field generate_prompt_def)
qed

subsection \<open>The position phrase\<close>

text \<open>
  C10. Whenever the position lies less than \<open>0.1\<close> to the side of the target and more
  than \<open>0.1\<close> in front of it, \<^verbatim>\<open>_get_camera_position_prompt\<close> returns the empty
  phrase, whatever the bearing is.
\<close>

theorem position_phrase_suppressed:
  assumes "\<bar>offset position target ''x''\<bar> < 0.1"
    and "offset position target ''z'' > 0.1"
  shows "get_camera_position_prompt position target pitch yaw = []"
proof -
  let ?x = "offset position target ''x''"
  let ?z = "offset position target ''z''"
  have "\<bar>?z\<bar> \<le> sqrt (?x * ?x + ?z * ?z)" by (rule sqrt_ge_abs)
  moreover have "(0.001::real) < 0.1" by simp
  ultimately have "\<not> sqrt (?x * ?x + ?z * ?z) < 0.001" using assms by linarith
  then show ?thesis
    using assms by (simp add: get_camera_position_prompt_def Let_def offset_def)
qed

text \<open>
  The pose of the claim, \<open>dx = 0.09\<close> and \<open>dz = 0.11\<close>, has a bearing of 39 whole
  degrees and no position phrase.
\<close>

theorem position_phrase_suppressed_witness:
  "\<bar>offset (Some [(''x'', 0.09), (''y'', 0), (''z'', 0.11)])
           (Some [(''x'', 0), (''y'', 0), (''z'', 0)]) ''x''\<bar> < 0.1 \<and>
   offset (Some [(''x'', 0.09), (''y'', 0), (''z'', 0.11)])
          (Some [(''x'', 0), (''y'', 0), (''z'', 0)]) ''z'' > 0.1 \<and>
   py_int (degrees (atan2 0.09 0.11)) = 39 \<and>
   get_camera_position_prompt (Some [(''x'', 0.09), (''y'', 0), (''z'', 0.11)])
       (Some [(''x'', 0), (''y'', 0), (''z'', 0)]) 0 0 = []"
  using position_phrase_suppressed
    [of "Some [(''x'', 0.09), (''y'', 0), (''z'', 0.11)]"
        "Some [(''x'', 0), (''y'', 0), (''z'', 0)]" 0 0]
    bearing_39
  by (simp add: offset_def get0_def)

end
